theory Spec2Isabelle
  imports Main
begin

section \<open>Data model of \<^verbatim>\<open>app.py\<close>\<close>

text \<open>
  The application keeps four entries in \<^verbatim>\<open>st.session_state\<close>: \<^verbatim>\<open>logged_in\<close>,
  \<^verbatim>\<open>username\<close>, \<^verbatim>\<open>users\<close> and \<^verbatim>\<open>chat_histories\<close>. A user is the dictionary
  \<^verbatim>\<open>{'password': ..., 'created_at': ...}\<close>, a message the dictionary
  \<^verbatim>\<open>{"role": ..., "content": ..., "timestamp": ...}\<close> whose role is only ever written as
  \<^verbatim>\<open>"user"\<close> or \<^verbatim>\<open>"assistant"\<close>. Timestamps are \<^verbatim>\<open>datetime.now().isoformat()\<close>
  strings and come from the environment. A Python string is a \<open>string\<close> here, one
  \<open>char\<close> for each of its characters, so that \<open>length\<close> is Python's \<^verbatim>\<open>len\<close> and
  equality of lists is Python's \<^verbatim>\<open>==\<close> on strings.
\<close>

type_synonym timestamp = string

datatype role = User | Assistant

record account =
  password :: string
  created_at :: timestamp

record message =
  role :: role
  content :: string
  timestamp :: timestamp

text \<open>
  The messages handed to the workflow are the classes of \<^verbatim>\<open>langchain_core.messages\<close>
  that \<^verbatim>\<open>AgentState\<close> lists. Only their content is set by the application.
\<close>

datatype lc_message = HumanMessage string | AIMessage string | SystemMessage string

fun lc_content :: "lc_message \<Rightarrow> string" where
  "lc_content (HumanMessage c) = c"
| "lc_content (AIMessage c) = c"
| "lc_content (SystemMessage c) = c"

text \<open>
  \<^verbatim>\<open>st.session_state.username\<close> is \<^verbatim>\<open>None\<close> or a string, and the code indexes
  \<^verbatim>\<open>chat_histories\<close> and the workflow's threads with that value as it is, so both are
  keyed by \<open>string option\<close>. The credential store is keyed by the strings typed into the
  forms.

  \<^verbatim>\<open>create_graph\<close> is decorated with \<^verbatim>\<open>st.cache_resource\<close>: the compiled workflow and
  its \<^verbatim>\<open>MemorySaver\<close> are built once and shared by all later script runs. The field
  \<open>graph_cache\<close> is \<open>None\<close> while nothing is cached and otherwise holds what the
  \<^verbatim>\<open>MemorySaver\<close> has checkpointed: for every thread id the value of the \<^verbatim>\<open>messages\<close>
  channel.
\<close>

type_synonym thread_id = "string option"

type_synonym checkpoints = "thread_id \<rightharpoonup> lc_message list"

record app_state =
  logged_in :: bool
  username :: "string option"
  users :: "string \<rightharpoonup> account"
  chat_histories :: "string option \<rightharpoonup> message list"
  graph_cache :: "checkpoints option"

text \<open>The state after the module's initialisation block (lines 14 to 22).\<close>

definition initial_state :: app_state where
  "initial_state =
     \<lparr>logged_in = False, username = None, users = Map.empty,
      chat_histories = Map.empty, graph_cache = None\<rparr>"

text \<open>
  What a script run reads from outside: the secret \<^verbatim>\<open>OPENAI_API_KEY\<close> (absent or
  present), whether the constructor \<^verbatim>\<open>ChatOpenAI(model=..., temperature=...,
  openai_api_key=k)\<close> returns a client for the key \<open>k\<close> or raises, the hosted model (the
  content of its reply, or the text of the exception that \<^verbatim>\<open>llm.invoke\<close> raises) and
  the clock (\<open>now e k\<close> is the \<open>k\<close>-th reading of \<^verbatim>\<open>datetime.now().isoformat()\<close> in
  the run). The constructor belongs to \<^verbatim>\<open>langchain_openai\<close>, so which keys it accepts
  is a parameter of the model.
\<close>

record env =
  api_key :: "string option"
  client_builds :: "string \<Rightarrow> bool"
  llm :: "lc_message list \<Rightarrow> string + string"
  now :: "nat \<Rightarrow> timestamp"

text \<open>
  The widgets of the page, with the values the script reads from them in one run.
  \<^verbatim>\<open>st.button\<close> is \<open>True\<close> in the run its click triggers, \<^verbatim>\<open>st.chat_input\<close> is
  \<^verbatim>\<open>None\<close> unless a text was submitted.
\<close>

record widgets =
  login_user :: string
  login_pass :: string
  login_btn :: bool
  signup_user :: string
  signup_pass :: string
  signup_pass_confirm :: string
  signup_btn :: bool
  logout_btn :: bool
  clear_btn :: bool
  chat_input :: "string option"

text \<open>
  What a run does that an observer sees, in order: the boxes drawn by \<^verbatim>\<open>st.error\<close>,
  \<^verbatim>\<open>st.success\<close> and \<^verbatim>\<open>st.info\<close>, the chat bubbles
  (\<^verbatim>\<open>with st.chat_message(role): st.write(content)\<close>), and the calls of the
  authentication functions, of the workflow (\<^verbatim>\<open>app.invoke\<close>) and of the hosted model
  (\<^verbatim>\<open>llm.invoke\<close>). The message counter of the sidebar is kept as a number. Static page
  furniture (title, headers, tabs, divider, the welcome text, the spinner) and the emoji
  of the texts are left out.
\<close>

datatype event =
    Error string
  | Success string
  | Info string
  | Total_messages nat
  | Chat role string
  | Call_login string string
  | Call_signup string string
  | Call_logout
  | Call_graph thread_id "lc_message list"
  | Call_llm "lc_message list"

text \<open>
  How a script run ends: it reaches the end of the script, \<^verbatim>\<open>st.rerun()\<close> aborts it
  and starts another one, or \<^verbatim>\<open>st.stop()\<close> aborts it. Both abort by raising an
  exception that is not an \<^verbatim>\<open>Exception\<close>, so no \<^verbatim>\<open>except Exception\<close> catches it.
\<close>

datatype outcome = Finished | Rerun | Stopped

type_synonym run = "app_state \<times> event list \<times> outcome"

definition and_then :: "run \<Rightarrow> (app_state \<Rightarrow> run) \<Rightarrow> run" where
  "and_then r f =
     (case r of
        (s, ev, Finished) \<Rightarrow> (case f s of (s', ev', oc) \<Rightarrow> (s', ev @ ev', oc))
      | (s, ev, Rerun) \<Rightarrow> (s, ev, Rerun)
      | (s, ev, Stopped) \<Rightarrow> (s, ev, Stopped))"

section \<open>Authentication functions\<close>

definition signup :: "app_state \<Rightarrow> string \<Rightarrow> string \<Rightarrow> timestamp \<Rightarrow> (bool \<times> string) \<times> app_state" where
  "signup s uname pw t =
     (if users s uname \<noteq> None then ((False, ''Username already exists''), s)
      else if length pw < 6 then ((False, ''Password must be at least 6 characters''), s)
      else if uname = [] \<or> pw = [] then ((False, ''Username and password cannot be empty''), s)
      else ((True, ''Account created successfully''),
            s\<lparr>users := (users s)(uname \<mapsto> \<lparr>password = pw, created_at = t\<rparr>),
              chat_histories := (chat_histories s)(Some uname \<mapsto> [])\<rparr>))"

definition login :: "app_state \<Rightarrow> string \<Rightarrow> string \<Rightarrow> (bool \<times> string) \<times> app_state" where
  "login s uname pw =
     (case users s uname of
        None \<Rightarrow> ((False, ''Username not found''), s)
      | Some acct \<Rightarrow>
          if password acct \<noteq> pw then ((False, ''Incorrect password''), s)
          else ((True, ''Logged in successfully''),
                s\<lparr>logged_in := True, username := Some uname\<rparr>))"

definition logout :: "app_state \<Rightarrow> app_state" where
  "logout s = s\<lparr>logged_in := False, username := None\<rparr>"

section \<open>The workflow\<close>

text \<open>
  \<^verbatim>\<open>get_llm\<close> reads the secret and constructs the client inside one \<^verbatim>\<open>try\<close>. When
  either raises (the key is absent, or the constructor refuses it), the handler draws the
  error box and calls \<^verbatim>\<open>st.stop()\<close>; then nothing is returned and nothing is cached.
  Otherwise the result is the client of the hosted model.
\<close>

definition get_llm :: "env \<Rightarrow> event list + (lc_message list \<Rightarrow> string + string)" where
  "get_llm e =
     (case api_key e of
        None \<Rightarrow> Inl [Error ''API key not found in secrets. Please add OPENAI_API_KEY to your .streamlit/secrets.toml file'']
      | Some k \<Rightarrow>
          if client_builds e k then Inr (llm e)
          else Inl [Error ''API key not found in secrets. Please add OPENAI_API_KEY to your .streamlit/secrets.toml file''])"

text \<open>
  \<^verbatim>\<open>chatbot_node\<close> calls the model once on the messages of the state and returns the
  update \<^verbatim>\<open>{"messages": [response]}\<close>, or raises what the call raises.
\<close>

definition chatbot_node ::
    "(lc_message list \<Rightarrow> string + string) \<Rightarrow> lc_message list \<Rightarrow> (string + lc_message list) \<times> event list" where
  "chatbot_node model messages =
     (case model messages of
        Inl err \<Rightarrow> (Inl err, [Call_llm messages])
      | Inr response \<Rightarrow> (Inr [AIMessage response], [Call_llm messages]))"

text \<open>
  \<^verbatim>\<open>create_graph\<close> returns the cached workflow when there is one. Otherwise it calls
  \<^verbatim>\<open>get_llm\<close>, builds the graph with the single node \<^verbatim>\<open>chatbot\<close> between the entry
  point and \<^verbatim>\<open>END\<close>, compiles it with a fresh \<^verbatim>\<open>MemorySaver\<close> and caches it.
\<close>

definition create_graph :: "env \<Rightarrow> app_state \<Rightarrow> (event list + checkpoints) \<times> app_state" where
  "create_graph e s =
     (case graph_cache s of
        Some mem \<Rightarrow> (Inr mem, s)
      | None \<Rightarrow>
          (case get_llm e of
             Inl shown \<Rightarrow> (Inl shown, s)
           | Inr model \<Rightarrow> (Inr Map.empty, s\<lparr>graph_cache := Some Map.empty\<rparr>)))"

text \<open>
  \<^verbatim>\<open>app.invoke({"messages": messages}, config)\<close> on the compiled graph. The
  \<^verbatim>\<open>messages\<close> channel of \<^verbatim>\<open>AgentState\<close> is annotated with \<^verbatim>\<open>operator.add\<close>: every
  write to it is concatenated to the value the channel has. The graph is compiled with
  a checkpointer, so the channel starts from the value saved for the thread id of
  \<open>config\<close> (the empty list for a thread never seen), the input is a write to it, and the
  value is saved again after each step: after the input is applied, and after the node's
  update is applied. The result of \<^verbatim>\<open>invoke\<close> is the final state; an exception of the
  node leaves \<^verbatim>\<open>invoke\<close> after the input has been checkpointed.
\<close>

definition checkpoint_of :: "checkpoints \<Rightarrow> thread_id \<Rightarrow> lc_message list" where
  "checkpoint_of mem tid = (case mem tid of None \<Rightarrow> [] | Some saved \<Rightarrow> saved)"

definition app_invoke ::
    "(lc_message list \<Rightarrow> string + string) \<Rightarrow> checkpoints \<Rightarrow> lc_message list \<Rightarrow> thread_id \<Rightarrow>
       (string + lc_message list) \<times> checkpoints \<times> event list" where
  "app_invoke model mem input tid =
     (let state = checkpoint_of mem tid @ input;
          mem1 = mem(tid \<mapsto> state)
      in case chatbot_node model state of
           (Inl err, calls) \<Rightarrow> (Inl err, mem1, Call_graph tid input # calls)
         | (Inr upd, calls) \<Rightarrow>
             (Inr (state @ upd), mem1(tid \<mapsto> state @ upd), Call_graph tid input # calls))"

section \<open>The page\<close>

text \<open>
  The loop of lines 195 to 200 that turns the transcript into workflow messages. Every
  role is \<^verbatim>\<open>"user"\<close> or \<^verbatim>\<open>"assistant"\<close>, so no message is skipped.
\<close>

fun prepare_messages :: "message list \<Rightarrow> lc_message list" where
  "prepare_messages [] = []"
| "prepare_messages (m # ms) =
     (case role m of
        User \<Rightarrow> HumanMessage (content m)
      | Assistant \<Rightarrow> AIMessage (content m)) # prepare_messages ms"

text \<open>\<^verbatim>\<open>st.session_state.chat_histories.get(username, [])\<close>.\<close>

definition history :: "app_state \<Rightarrow> string option \<Rightarrow> message list" where
  "history s u = (case chat_histories s u of None \<Rightarrow> [] | Some h \<Rightarrow> h)"

definition append_message :: "app_state \<Rightarrow> string option \<Rightarrow> message \<Rightarrow> app_state" where
  "append_message s u m = s\<lparr>chat_histories := (chat_histories s)(u \<mapsto> history s u @ [m])\<rparr>"

text \<open>\<^verbatim>\<open>f"Logged in as: **{st.session_state.username}**"\<close>.\<close>

definition logged_in_as :: "string option \<Rightarrow> string" where
  "logged_in_as u = ''Logged in as: **'' @ (case u of None \<Rightarrow> ''None'' | Some n \<Rightarrow> n) @ ''**''"

text \<open>The login tab (lines 112 to 126).\<close>

definition login_tab :: "widgets \<Rightarrow> app_state \<Rightarrow> run" where
  "login_tab w s =
     (if login_btn w then
        if login_user w \<noteq> [] \<and> login_pass w \<noteq> [] then
          (case login s (login_user w) (login_pass w) of
             ((success, msg), s') \<Rightarrow>
               if success then (s', [Call_login (login_user w) (login_pass w), Success msg], Rerun)
               else (s', [Call_login (login_user w) (login_pass w), Error msg], Finished))
        else (s, [Error ''Please enter both username and password''], Finished)
      else (s, [], Finished))"

text \<open>The sign-up tab (lines 128 to 144).\<close>

definition signup_tab :: "widgets \<Rightarrow> env \<Rightarrow> app_state \<Rightarrow> run" where
  "signup_tab w e s =
     (if signup_btn w then
        if signup_user w = [] \<or> signup_pass w = [] then
          (s, [Error ''Please fill in all fields''], Finished)
        else if signup_pass w \<noteq> signup_pass_confirm w then
          (s, [Error ''Passwords don't match''], Finished)
        else
          (case signup s (signup_user w) (signup_pass w) (now e 0) of
             ((success, msg), s') \<Rightarrow>
               if success then (s', [Call_signup (signup_user w) (signup_pass w), Success msg], Finished)
               else (s', [Call_signup (signup_user w) (signup_pass w), Error msg], Finished))
      else (s, [], Finished))"

text \<open>The sidebar of a logged-in session (lines 146 to 157).\<close>

definition account_panel :: "widgets \<Rightarrow> app_state \<Rightarrow> run" where
  "account_panel w s =
     (if logout_btn w then
        (logout s, [Success (logged_in_as (username s)), Call_logout], Rerun)
      else if clear_btn w then
        (s\<lparr>chat_histories := (chat_histories s)(username s \<mapsto> [])\<rparr>,
         [Success (logged_in_as (username s)),
          Total_messages (length (history s (username s))),
          Success ''Chat history cleared!''], Rerun)
      else
        (s, [Success (logged_in_as (username s)),
             Total_messages (length (history s (username s)))], Finished))"

definition sidebar :: "widgets \<Rightarrow> env \<Rightarrow> app_state \<Rightarrow> run" where
  "sidebar w e s =
     (if \<not> logged_in s then and_then (login_tab w s) (signup_tab w e)
      else account_panel w s)"

text \<open>
  The body of the \<^verbatim>\<open>try\<close> of lines 190 to 222, entered after the user's message has
  been appended. \<^verbatim>\<open>st.stop()\<close> inside \<^verbatim>\<open>create_graph\<close> is not caught by
  \<^verbatim>\<open>except Exception\<close>; everything the workflow raises is.
\<close>

definition get_ai_response :: "env \<Rightarrow> app_state \<Rightarrow> run" where
  "get_ai_response e s =
     (let u = username s in
      case create_graph e s of
        (Inl shown, s1) \<Rightarrow> (s1, shown, Stopped)
      | (Inr mem, s1) \<Rightarrow>
          (case app_invoke (llm e) mem (prepare_messages (history s1 u)) u of
             (Inl err, mem', calls) \<Rightarrow>
               (s1\<lparr>graph_cache := Some mem'\<rparr>,
                calls @ [Error (''Error: '' @ err), Info ''Please check your API configuration''],
                Finished)
           | (Inr result, mem', calls) \<Rightarrow>
               (case rev result of
                  [] \<Rightarrow>
                    (s1\<lparr>graph_cache := Some mem'\<rparr>,
                     calls @ [Error ''Error: list index out of range'',
                              Info ''Please check your API configuration''],
                     Finished)
                | m # _ \<Rightarrow>
                    (append_message (s1\<lparr>graph_cache := Some mem'\<rparr>) u
                       \<lparr>role = Assistant, content = lc_content m, timestamp = now e 1\<rparr>,
                     calls @ [Chat Assistant (lc_content m)],
                     Finished))))"

text \<open>
  The chat interface of a logged-in session (lines 161 to 222). The walrus test
  \<^verbatim>\<open>if prompt := st.chat_input(...)\<close> is false for \<^verbatim>\<open>None\<close> and for the empty string.
\<close>

definition chat_interface :: "widgets \<Rightarrow> env \<Rightarrow> app_state \<Rightarrow> run" where
  "chat_interface w e s =
     (let u = username s;
          s1 = (if chat_histories s u = None
                then s\<lparr>chat_histories := (chat_histories s)(u \<mapsto> [])\<rparr> else s);
          shown = map (\<lambda>m. Chat (role m) (content m)) (history s1 u)
      in case chat_input w of
           None \<Rightarrow> (s1, shown, Finished)
         | Some prompt \<Rightarrow>
             if prompt = [] then (s1, shown, Finished)
             else
               and_then
                 (append_message s1 u \<lparr>role = User, content = prompt, timestamp = now e 0\<rparr>,
                  shown @ [Chat User prompt], Finished)
                 (get_ai_response e))"

definition main :: "widgets \<Rightarrow> env \<Rightarrow> app_state \<Rightarrow> run" where
  "main w e s =
     and_then (sidebar w e s)
       (\<lambda>s'. if logged_in s' then chat_interface w e s'
             else (s', [Info ''Please login or sign up to start chatting''], Finished))"

text \<open>
  A click that ends its run with \<^verbatim>\<open>st.rerun()\<close> is followed at once by a run in which
  no button is pressed and nothing is submitted; the text fields keep their values.
\<close>

definition reset_triggers :: "widgets \<Rightarrow> widgets" where
  "reset_triggers w =
     w\<lparr>login_btn := False, signup_btn := False, logout_btn := False,
       clear_btn := False, chat_input := None\<rparr>"

definition interaction :: "widgets \<Rightarrow> env \<Rightarrow> app_state \<Rightarrow> run" where
  "interaction w e s =
     (case main w e s of
        (s', ev, Rerun) \<Rightarrow> main (reset_triggers w) e s'
      | (s', ev, Finished) \<Rightarrow> (s', ev, Finished)
      | (s', ev, Stopped) \<Rightarrow> (s', ev, Stopped))"

section \<open>Vocabulary of the properties\<close>

text \<open>
  The messages a conversation turn builds for the workflow: the transcript of the
  current user followed by the new input, each with its role tag.
\<close>

definition user_message :: "env \<Rightarrow> string \<Rightarrow> message" where
  "user_message e prompt = \<lparr>role = User, content = prompt, timestamp = now e 0\<rparr>"

definition assistant_message :: "env \<Rightarrow> string \<Rightarrow> message" where
  "assistant_message e reply = \<lparr>role = Assistant, content = reply, timestamp = now e 1\<rparr>"

definition turn_messages :: "env \<Rightarrow> app_state \<Rightarrow> string \<Rightarrow> lc_message list" where
  "turn_messages e s prompt =
     prepare_messages (history s (username s) @ [user_message e prompt])"

text \<open>What the workflow has checkpointed for the current user's thread.\<close>

definition checkpointed :: "app_state \<Rightarrow> lc_message list" where
  "checkpointed s =
     (case graph_cache s of None \<Rightarrow> [] | Some mem \<Rightarrow> checkpoint_of mem (username s))"

text \<open>The checkpoints of the workflow, none before it is built.\<close>

definition graph_memory :: "app_state \<Rightarrow> checkpoints" where
  "graph_memory s = (case graph_cache s of None \<Rightarrow> Map.empty | Some mem \<Rightarrow> mem)"

text \<open>The three components of a run.\<close>

definition state_of :: "run \<Rightarrow> app_state" where
  "state_of r = fst r"

definition events_of :: "run \<Rightarrow> event list" where
  "events_of r = fst (snd r)"

definition outcome_of :: "run \<Rightarrow> outcome" where
  "outcome_of r = snd (snd r)"

text \<open>What the page draws at the top of a logged-in run: sidebar, then the transcript.\<close>

definition page_head :: "app_state \<Rightarrow> event list" where
  "page_head s =
     [Success (logged_in_as (username s)), Total_messages (length (history s (username s)))]
     @ map (\<lambda>m. Chat (role m) (content m)) (history s (username s))"

fun is_llm_call :: "event \<Rightarrow> bool" where
  "is_llm_call (Call_llm ms) = True"
| "is_llm_call ev = False"

fun is_graph_call :: "event \<Rightarrow> bool" where
  "is_graph_call (Call_graph tid ms) = True"
| "is_graph_call ev = False"

fun is_signup_call :: "event \<Rightarrow> bool" where
  "is_signup_call (Call_signup u p) = True"
| "is_signup_call ev = False"

fun is_error :: "event \<Rightarrow> bool" where
  "is_error (Error msg) = True"
| "is_error ev = False"

section \<open>Concrete sessions\<close>

definition idle :: widgets where
  "idle =
     \<lparr>login_user = [], login_pass = [], login_btn = False,
      signup_user = [], signup_pass = [], signup_pass_confirm = [], signup_btn = False,
      logout_btn = False, clear_btn = False, chat_input = None\<rparr>"

definition clock :: "nat \<Rightarrow> timestamp" where
  "clock k = (if k = 0 then ''2024-05-01T10:00:00'' else ''2024-05-01T10:00:02'')"

text \<open>
  A configured key and a model that answers; a model that is down; no key; a key that
  the constructor refuses. In these environments the constructor accepts every key but
  the empty one.
\<close>

definition demo_env :: env where
  "demo_env =
     \<lparr>api_key = Some ''sk-demo'', client_builds = (\<lambda>k. k \<noteq> []),
      llm = (\<lambda>ms. Inr ''yo''), now = clock\<rparr>"

definition down_env :: env where
  "down_env =
     \<lparr>api_key = Some ''sk-demo'', client_builds = (\<lambda>k. k \<noteq> []),
      llm = (\<lambda>ms. Inl ''Connection error.''), now = clock\<rparr>"

definition nokey_env :: env where
  "nokey_env =
     \<lparr>api_key = None, client_builds = (\<lambda>k. k \<noteq> []),
      llm = (\<lambda>ms. Inr ''yo''), now = clock\<rparr>"

definition badkey_env :: env where
  "badkey_env =
     \<lparr>api_key = Some [], client_builds = (\<lambda>k. k \<noteq> []),
      llm = (\<lambda>ms. Inl ''Connection error.''), now = clock\<rparr>"

definition alice_registered :: app_state where
  "alice_registered = snd (signup initial_state ''alice'' ''secret1'' ''2024-05-01T09:59:00'')"

definition alice_session :: app_state where
  "alice_session = snd (login alice_registered ''alice'' ''secret1'')"

definition after_first_turn :: app_state where
  "after_first_turn = fst (main (idle\<lparr>chat_input := Some ''hi''\<rparr>) demo_env alice_session)"

definition two_users :: app_state where
  "two_users =
     \<lparr>logged_in = True, username = Some ''alice'',
      users = [''alice'' \<mapsto> \<lparr>password = ''secret1'', created_at = ''2024-05-01T09:59:00''\<rparr>,
               ''bob'' \<mapsto> \<lparr>password = ''hunter22'', created_at = ''2024-05-01T09:59:30''\<rparr>],
      chat_histories =
        [Some ''alice'' \<mapsto> [\<lparr>role = User, content = ''hi'', timestamp = ''2024-05-01T10:00:00''\<rparr>,
                            \<lparr>role = Assistant, content = ''yo'', timestamp = ''2024-05-01T10:00:02''\<rparr>],
         Some ''bob'' \<mapsto> [\<lparr>role = User, content = ''ping'', timestamp = ''2024-05-01T10:01:00''\<rparr>]],
      graph_cache = None\<rparr>"

section \<open>Basic facts\<close>

lemma and_then_Finished: "and_then (s, ev, Finished) f = (case f s of (s', ev', oc) \<Rightarrow> (s', ev @ ev', oc))"
  by (simp add: and_then_def)

lemma prepare_messages_append: "prepare_messages (xs @ ys) = prepare_messages xs @ prepare_messages ys"
  by (induction xs) simp_all

lemma history_append_message:
  "history (append_message s u m) u = history s u @ [m]"
  by (simp add: history_def append_message_def)

lemma sidebar_quiet:
  assumes "logged_in s" "\<not> logout_btn w" "\<not> clear_btn w"
  shows "sidebar w e s =
    (s, [Success (logged_in_as (username s)), Total_messages (length (history s (username s)))], Finished)"
  using assms by (simp add: sidebar_def account_panel_def)

lemma chat_interface_turn:
  assumes "chat_input w = Some p" "p \<noteq> []"
  shows "chat_interface w e s =
    (case get_ai_response e (append_message s (username s) (user_message e p)) of
       (s', ev', oc) \<Rightarrow>
         (s', map (\<lambda>m. Chat (role m) (content m)) (history s (username s)) @ [Chat User p] @ ev', oc))"
  using assms
  by (simp add: chat_interface_def Let_def and_then_def append_message_def history_def user_message_def
      split: option.splits)

lemma main_turn:
  assumes "logged_in s" "\<not> logout_btn w" "\<not> clear_btn w" "chat_input w = Some p" "p \<noteq> []"
  shows "main w e s =
    (case get_ai_response e (append_message s (username s) (user_message e p)) of
       (s', ev', oc) \<Rightarrow> (s', page_head s @ [Chat User p] @ ev', oc))"
  using assms
  by (simp add: main_def sidebar_quiet and_then_Finished chat_interface_turn page_head_def
      split: prod.splits)

lemma get_ai_response_no_key:
  assumes "api_key e = None" "graph_cache s = None"
  shows "get_ai_response e s =
    (s, [Error ''API key not found in secrets. Please add OPENAI_API_KEY to your .streamlit/secrets.toml file''], Stopped)"
  using assms by (simp add: get_ai_response_def create_graph_def get_llm_def)

lemma get_ai_response_no_client:
  assumes "api_key e = Some k" "\<not> client_builds e k" "graph_cache s = None"
  shows "get_ai_response e s =
    (s, [Error ''API key not found in secrets. Please add OPENAI_API_KEY to your .streamlit/secrets.toml file''], Stopped)"
  using assms by (simp add: get_ai_response_def create_graph_def get_llm_def)

lemma create_graph_available:
  assumes "graph_cache s \<noteq> None \<or> (\<exists>k. api_key e = Some k \<and> client_builds e k)"
  shows "create_graph e s = (Inr (graph_memory s), s\<lparr>graph_cache := Some (graph_memory s)\<rparr>)"
  using assms by (auto simp: create_graph_def get_llm_def graph_memory_def split: option.splits)

lemma get_ai_response_failure:
  assumes "graph_cache s \<noteq> None \<or> (\<exists>k. api_key e = Some k \<and> client_builds e k)"
    and "llm e (checkpointed s @ prepare_messages (history s (username s))) = Inl err"
  shows "get_ai_response e s =
    (s\<lparr>graph_cache := Some ((graph_memory s)(username s \<mapsto>
          checkpointed s @ prepare_messages (history s (username s))))\<rparr>,
     [Call_graph (username s) (prepare_messages (history s (username s))),
      Call_llm (checkpointed s @ prepare_messages (history s (username s))),
      Error (''Error: '' @ err), Info ''Please check your API configuration''],
     Finished)"
proof -
  have ck: "checkpoint_of (graph_memory s) (username s) = checkpointed s"
    by (simp add: checkpointed_def graph_memory_def checkpoint_of_def split: option.splits)
  show ?thesis
    using assms(2)
    by (simp add: get_ai_response_def create_graph_available[OF assms(1)] app_invoke_def
        chatbot_node_def Let_def ck history_def)
qed

lemma get_ai_response_success:
  assumes "graph_cache s \<noteq> None \<or> (\<exists>k. api_key e = Some k \<and> client_builds e k)"
    and "llm e (checkpointed s @ prepare_messages (history s (username s))) = Inr reply"
  shows "get_ai_response e s =
    (append_message
       (s\<lparr>graph_cache := Some ((graph_memory s)(username s \<mapsto>
          checkpointed s @ prepare_messages (history s (username s)) @ [AIMessage reply]))\<rparr>)
       (username s) (assistant_message e reply),
     [Call_graph (username s) (prepare_messages (history s (username s))),
      Call_llm (checkpointed s @ prepare_messages (history s (username s))),
      Chat Assistant reply],
     Finished)"
proof -
  have ck: "checkpoint_of (graph_memory s) (username s) = checkpointed s"
    by (simp add: checkpointed_def graph_memory_def checkpoint_of_def split: option.splits)
  show ?thesis
    using assms(2)
    by (simp add: get_ai_response_def create_graph_available[OF assms(1)] app_invoke_def
        chatbot_node_def Let_def ck history_def assistant_message_def)
qed

lemma append_message_fields:
  "logged_in (append_message s u m) = logged_in s"
  "username (append_message s u m) = username s"
  "users (append_message s u m) = users s"
  "graph_cache (append_message s u m) = graph_cache s"
  "chat_histories (append_message s u m) = (chat_histories s)(u \<mapsto> history s u @ [m])"
  by (simp_all add: append_message_def)

lemma turn_state_facts:
  "checkpointed (append_message s u m) = checkpointed s"
  "graph_memory (append_message s u m) = graph_memory s"
  by (simp_all add: checkpointed_def graph_memory_def append_message_fields split: option.splits)

lemma graph_cache_update_facts:
  "history (s\<lparr>graph_cache := g\<rparr>) u = history s u"
  "username s = u \<Longrightarrow> checkpointed (s\<lparr>graph_cache := Some (mem(u \<mapsto> saved))\<rparr>) = saved"
  by (simp_all add: history_def checkpointed_def checkpoint_of_def)

text \<open>
  The two concrete sessions, evaluated: alice after her sign-up, and after her login.
\<close>

lemma alice_registered_eq:
  "alice_registered =
     \<lparr>logged_in = False, username = None,
      users = [''alice'' \<mapsto> \<lparr>password = ''secret1'', created_at = ''2024-05-01T09:59:00''\<rparr>],
      chat_histories = [Some ''alice'' \<mapsto> []], graph_cache = None\<rparr>"
  by (simp add: alice_registered_def signup_def initial_state_def)

lemma alice_session_eq:
  "alice_session =
     \<lparr>logged_in = True, username = Some ''alice'',
      users = [''alice'' \<mapsto> \<lparr>password = ''secret1'', created_at = ''2024-05-01T09:59:00''\<rparr>],
      chat_histories = [Some ''alice'' \<mapsto> []], graph_cache = None\<rparr>"
  by (simp add: alice_session_def alice_registered_eq login_def)

text \<open>
  The session of two users with transcripts, and alice's session after her first turn
  with the answering model.
\<close>

lemma two_users_fields:
  "logged_in two_users" "username two_users = Some ''alice''"
  "users two_users ''alice'' = Some \<lparr>password = ''secret1'', created_at = ''2024-05-01T09:59:00''\<rparr>"
  "graph_cache two_users = None"
  "chat_histories two_users (Some ''alice'') =
     Some [\<lparr>role = User, content = ''hi'', timestamp = ''2024-05-01T10:00:00''\<rparr>,
           \<lparr>role = Assistant, content = ''yo'', timestamp = ''2024-05-01T10:00:02''\<rparr>]"
  "chat_histories two_users (Some ''bob'') =
     Some [\<lparr>role = User, content = ''ping'', timestamp = ''2024-05-01T10:01:00''\<rparr>]"
  by (simp_all add: two_users_def)

lemma after_first_turn_eq:
  "after_first_turn =
     \<lparr>logged_in = True, username = Some ''alice'',
      users = [''alice'' \<mapsto> \<lparr>password = ''secret1'', created_at = ''2024-05-01T09:59:00''\<rparr>],
      chat_histories =
        [Some ''alice'' \<mapsto> [\<lparr>role = User, content = ''hi'', timestamp = ''2024-05-01T10:00:00''\<rparr>,
                            \<lparr>role = Assistant, content = ''yo'', timestamp = ''2024-05-01T10:00:02''\<rparr>]],
      graph_cache = Some [Some ''alice'' \<mapsto> [HumanMessage ''hi'', AIMessage ''yo'']]\<rparr>"
  by (simp add: after_first_turn_def alice_session_eq main_def sidebar_def account_panel_def
      and_then_def chat_interface_def get_ai_response_def create_graph_def get_llm_def
      app_invoke_def chatbot_node_def checkpoint_of_def append_message_def history_def
      Let_def idle_def demo_env_def clock_def)

section \<open>Reruns and the bound user\<close>

text \<open>
  A run without a pressed button and without a submitted text reaches the end of the
  script and changes nothing but a missing transcript of the current user, which becomes
  the empty one. So the run that follows \<^verbatim>\<open>st.rerun()\<close> is the last of its
  interaction.
\<close>

lemma main_without_triggers:
  "outcome_of (main (reset_triggers w) e s) = Finished
   \<and> logged_in (state_of (main (reset_triggers w) e s)) = logged_in s
   \<and> username (state_of (main (reset_triggers w) e s)) = username s
   \<and> users (state_of (main (reset_triggers w) e s)) = users s
   \<and> graph_cache (state_of (main (reset_triggers w) e s)) = graph_cache s
   \<and> (\<forall>u. history (state_of (main (reset_triggers w) e s)) u = history s u)"
  by (simp add: main_def sidebar_def login_tab_def signup_tab_def account_panel_def and_then_def
      chat_interface_def reset_triggers_def outcome_of_def state_of_def history_def Let_def)

lemma interaction_never_reruns: "outcome_of (interaction w e s) \<noteq> Rerun"
proof (cases "main w e s")
  case (fields s' ev oc)
  then show ?thesis
    using main_without_triggers[of w e s']
    by (cases oc) (simp_all add: interaction_def outcome_of_def)
qed

lemma clear_click:
  assumes "logged_in s" "\<not> logout_btn w" "clear_btn w"
  shows "state_of (interaction w e s) = s\<lparr>chat_histories := (chat_histories s)(username s \<mapsto> [])\<rparr>"
  using assms
  by (simp add: interaction_def main_def sidebar_def account_panel_def and_then_def
      chat_interface_def reset_triggers_def state_of_def Let_def)

text \<open>
  The two sidebar clicks of the authentication cycle, with their reruns: a logout leaves
  the anonymous page, a login with valid credentials draws the user's stored transcript.
\<close>

lemma logout_click:
  assumes "logged_in s" "logout_btn w"
  shows "interaction w e s = (logout s, [Info ''Please login or sign up to start chatting''], Finished)"
  using assms
  by (simp add: interaction_def main_def sidebar_def account_panel_def and_then_def
      reset_triggers_def login_tab_def signup_tab_def logout_def)

lemma login_click:
  assumes "\<not> logged_in s" "login_btn w" "login_user w = u" "login_pass w = p" "u \<noteq> []" "p \<noteq> []"
    and "fst (fst (login s u p))"
  shows "username (state_of (interaction w e s)) = Some u
       \<and> logged_in (state_of (interaction w e s))
       \<and> history (state_of (interaction w e s)) (Some u) = history s (Some u)
       \<and> events_of (interaction w e s) =
            [Success (logged_in_as (Some u)), Total_messages (length (history s (Some u)))]
            @ map (\<lambda>m. Chat (role m) (content m)) (history s (Some u))
       \<and> outcome_of (interaction w e s) = Finished"
  using assms
  by (auto simp: interaction_def main_def sidebar_def account_panel_def and_then_def
      reset_triggers_def login_tab_def login_def chat_interface_def Let_def history_def
      state_of_def events_of_def outcome_of_def
      split: option.splits if_splits)

text \<open>
  A session that is logged in has a user bound: every run keeps that. A turn never
  changes who is logged in, nor the credential store. Hence in every session reached from
  the initial state the chat interface, which runs only when logged in, indexes the
  transcript store and the threads with a username and not with \<open>None\<close>.
\<close>

lemma get_ai_response_session:
  "logged_in (fst (get_ai_response e s)) = logged_in s
   \<and> username (fst (get_ai_response e s)) = username s
   \<and> users (fst (get_ai_response e s)) = users s"
  by (simp add: get_ai_response_def create_graph_def get_llm_def app_invoke_def chatbot_node_def
      append_message_def Let_def split: option.splits sum.splits list.splits prod.splits)

lemma chat_interface_session:
  "logged_in (fst (chat_interface w e s)) = logged_in s
   \<and> username (fst (chat_interface w e s)) = username s
   \<and> users (fst (chat_interface w e s)) = users s"
proof (cases "chat_input w")
  case None
  then show ?thesis by (simp add: chat_interface_def Let_def)
next
  case (Some p)
  show ?thesis
  proof (cases "p = []")
    case True
    with Some show ?thesis by (simp add: chat_interface_def Let_def)
  next
    case False
    obtain s' ev oc where r: "get_ai_response e (append_message s (username s) (user_message e p)) = (s', ev, oc)"
      by (cases "get_ai_response e (append_message s (username s) (user_message e p))") auto
    from get_ai_response_session[of e "append_message s (username s) (user_message e p)"] r
    have "logged_in s' = logged_in s \<and> username s' = username s \<and> users s' = users s"
      by (simp add: append_message_fields)
    with Some False r show ?thesis by (simp add: chat_interface_turn)
  qed
qed

lemma sidebar_user_bound:
  assumes "logged_in s \<longrightarrow> username s \<noteq> None"
  shows "logged_in (fst (sidebar w e s)) \<longrightarrow> username (fst (sidebar w e s)) \<noteq> None"
  using assms
  by (auto simp: sidebar_def login_tab_def signup_tab_def account_panel_def and_then_def
      login_def signup_def logout_def split: option.splits if_splits prod.splits)

lemma main_keeps_user_bound:
  assumes "logged_in s \<longrightarrow> username s \<noteq> None"
  shows "logged_in (state_of (main w e s)) \<longrightarrow> username (state_of (main w e s)) \<noteq> None"
proof -
  obtain s1 ev1 oc1 where sb: "sidebar w e s = (s1, ev1, oc1)"
    by (cases "sidebar w e s") auto
  from sidebar_user_bound[OF assms, of w e] sb
  have b1: "logged_in s1 \<longrightarrow> username s1 \<noteq> None" by simp
  show ?thesis
  proof (cases oc1)
    case Finished
    obtain s2 ev2 oc2 where ci: "chat_interface w e s1 = (s2, ev2, oc2)"
      by (cases "chat_interface w e s1") auto
    from chat_interface_session[of w e s1] ci
    have "logged_in s2 = logged_in s1 \<and> username s2 = username s1" by simp
    with b1 sb Finished ci show ?thesis
      by (simp add: main_def and_then_def state_of_def)
  next
    case Rerun
    with b1 sb show ?thesis by (simp add: main_def and_then_def state_of_def)
  next
    case Stopped
    with b1 sb show ?thesis by (simp add: main_def and_then_def state_of_def)
  qed
qed

section \<open>Sign-up and login\<close>

text \<open>
  Claim C4. A sign-up with a non-empty username that is not yet a key of the credential
  store and a password of at least six characters succeeds. It stores a user entry with
  that password under the username, stores the empty transcript under the username, and
  leaves \<open>logged_in\<close>, the current username and the workflow cache as they were.
\<close>

theorem signup_valid_succeeds:
  assumes "uname \<noteq> []" "users s uname = None" "6 \<le> length pw"
  shows "fst (signup s uname pw t) = (True, ''Account created successfully'')
       \<and> users (snd (signup s uname pw t)) = (users s)(uname \<mapsto> \<lparr>password = pw, created_at = t\<rparr>)
       \<and> chat_histories (snd (signup s uname pw t)) = (chat_histories s)(Some uname \<mapsto> [])
       \<and> logged_in (snd (signup s uname pw t)) = logged_in s
       \<and> username (snd (signup s uname pw t)) = username s
       \<and> graph_cache (snd (signup s uname pw t)) = graph_cache s"
  using assms by (auto simp: signup_def)

text \<open>
  The theorem at bob's sign-up after alice's.
\<close>

theorem signup_valid_succeeds_witness:
  "fst (signup alice_registered ''bob'' ''hunter22'' ''2024-05-01T09:59:30'') = (True, ''Account created successfully'')
   \<and> users (snd (signup alice_registered ''bob'' ''hunter22'' ''2024-05-01T09:59:30'')) ''bob''
       = Some \<lparr>password = ''hunter22'', created_at = ''2024-05-01T09:59:30''\<rparr>
   \<and> chat_histories (snd (signup alice_registered ''bob'' ''hunter22'' ''2024-05-01T09:59:30'')) (Some ''bob'') = Some []
   \<and> logged_in (snd (signup alice_registered ''bob'' ''hunter22'' ''2024-05-01T09:59:30'')) = False
   \<and> username (snd (signup alice_registered ''bob'' ''hunter22'' ''2024-05-01T09:59:30'')) = None"
proof -
  have h1: "''bob'' \<noteq> []" by simp
  have h2: "users alice_registered ''bob'' = None" by (simp add: alice_registered_eq)
  have h3: "6 \<le> length ''hunter22''" by simp
  from signup_valid_succeeds[OF h1 h2 h3, of "''2024-05-01T09:59:30''"]
  show ?thesis by (simp add: alice_registered_eq)
qed

text \<open>
  Claim C8. Whatever the password is (short and empty ones included), a sign-up with a
  username that is already a key of the credential store returns the failure
  \<open>Username already exists\<close> and the state it started from: the duplicate test is the
  first test of \<^verbatim>\<open>signup\<close>.
\<close>

theorem signup_duplicate_fails:
  assumes "users s uname \<noteq> None"
  shows "signup s uname pw t = ((False, ''Username already exists''), s)"
  using assms by (simp add: signup_def)

text \<open>
  The theorem at a long, a short and an empty password for the taken name.
\<close>

theorem signup_duplicate_fails_witness:
  "signup alice_registered ''alice'' ''another-password'' ''2024-05-01T10:30:00''
     = ((False, ''Username already exists''), alice_registered)
   \<and> signup alice_registered ''alice'' ''abc'' ''2024-05-01T10:30:00''
     = ((False, ''Username already exists''), alice_registered)
   \<and> signup alice_registered ''alice'' [] ''2024-05-01T10:30:00''
     = ((False, ''Username already exists''), alice_registered)"
proof -
  have h: "users alice_registered ''alice'' \<noteq> None" by (simp add: alice_registered_eq)
  show ?thesis
    using signup_duplicate_fails[OF h, of "''another-password''" "''2024-05-01T10:30:00''"]
      signup_duplicate_fails[OF h, of "''abc''" "''2024-05-01T10:30:00''"]
      signup_duplicate_fails[OF h, of "[]" "''2024-05-01T10:30:00''"]
    by simp
qed

text \<open>
  Claim C9. When \<^verbatim>\<open>signup\<close> or \<^verbatim>\<open>login\<close> returns a failure, the whole state
  (credential store, transcript store, \<open>logged_in\<close>, current username, workflow cache)
  is the state before the call.
\<close>

theorem failed_signup_or_login_changes_nothing:
  "(\<not> fst (fst (signup s u p t)) \<longrightarrow> snd (signup s u p t) = s)
   \<and> (\<not> fst (fst (login s u p)) \<longrightarrow> snd (login s u p) = s)"
  by (auto simp: signup_def login_def split: option.splits)

text \<open>
  The theorem at a short password, a taken name, an empty name, a wrong password and an
  unknown name.
\<close>

theorem failed_signup_or_login_changes_nothing_witness:
  "snd (signup alice_registered ''bob'' ''short'' ''2024-05-01T10:30:00'') = alice_registered
   \<and> snd (signup alice_registered ''alice'' ''secret2'' ''2024-05-01T10:30:00'') = alice_registered
   \<and> snd (signup alice_registered [] ''secret2'' ''2024-05-01T10:30:00'') = alice_registered
   \<and> snd (login alice_registered ''alice'' ''wrongpass'') = alice_registered
   \<and> snd (login alice_registered ''carol'' ''secret1'') = alice_registered"
proof -
  have f1: "\<not> fst (fst (signup alice_registered ''bob'' ''short'' ''2024-05-01T10:30:00''))"
    by (simp add: signup_def alice_registered_eq)
  have f2: "\<not> fst (fst (signup alice_registered ''alice'' ''secret2'' ''2024-05-01T10:30:00''))"
    by (simp add: signup_def alice_registered_eq)
  have f3: "\<not> fst (fst (signup alice_registered [] ''secret2'' ''2024-05-01T10:30:00''))"
    by (simp add: signup_def alice_registered_eq)
  have f4: "\<not> fst (fst (login alice_registered ''alice'' ''wrongpass''))"
    by (simp add: login_def alice_registered_eq)
  have f5: "\<not> fst (fst (login alice_registered ''carol'' ''secret1''))"
    by (simp add: login_def alice_registered_eq)
  show ?thesis
    using f1 f2 f3 f4 f5
      failed_signup_or_login_changes_nothing[of alice_registered "''bob''" "''short''" "''2024-05-01T10:30:00''"]
      failed_signup_or_login_changes_nothing[of alice_registered "''alice''" "''secret2''" "''2024-05-01T10:30:00''"]
      failed_signup_or_login_changes_nothing[of alice_registered "[]" "''secret2''" "''2024-05-01T10:30:00''"]
      failed_signup_or_login_changes_nothing[of alice_registered "''alice''" "''wrongpass''"]
      failed_signup_or_login_changes_nothing[of alice_registered "''carol''" "''secret1''"]
    by blast
qed

text \<open>
  Claim C3. \<^verbatim>\<open>login\<close> succeeds exactly when the username is a key of the credential
  store and the stored password equals the supplied one as a string. An absent username
  fails with \<open>Username not found\<close>, a differing password with
  \<open>Incorrect password\<close>, both without a change of state. On success the state differs
  from the one before only in \<open>logged_in\<close>, now true, and in the current username, now
  the one supplied.
\<close>

theorem login_succeeds_iff_exact_match:
  "(fst (fst (login s u p)) \<longleftrightarrow> (\<exists>acct. users s u = Some acct \<and> password acct = p))
   \<and> (users s u = None \<longrightarrow> login s u p = ((False, ''Username not found''), s))
   \<and> (\<forall>acct. users s u = Some acct \<and> password acct \<noteq> p \<longrightarrow>
         login s u p = ((False, ''Incorrect password''), s))
   \<and> (fst (fst (login s u p)) \<longrightarrow>
         snd (login s u p) = s\<lparr>logged_in := True, username := Some u\<rparr>)"
  by (auto simp: login_def split: option.splits)

text \<open>
  The theorem at alice's right password, at an unknown name, at a password that differs
  in the case of one letter, and at a proper prefix of the password.
\<close>

theorem login_succeeds_iff_exact_match_witness:
  "fst (fst (login alice_registered ''alice'' ''secret1''))
   \<and> logged_in (snd (login alice_registered ''alice'' ''secret1''))
   \<and> username (snd (login alice_registered ''alice'' ''secret1'')) = Some ''alice''
   \<and> login alice_registered ''bob'' ''secret1'' = ((False, ''Username not found''), alice_registered)
   \<and> login alice_registered ''alice'' ''Secret1'' = ((False, ''Incorrect password''), alice_registered)
   \<and> login alice_registered ''alice'' ''secret'' = ((False, ''Incorrect password''), alice_registered)"
proof -
  let ?acct = "\<lparr>password = ''secret1'', created_at = ''2024-05-01T09:59:00''\<rparr>"
  have a: "users alice_registered ''alice'' = Some ?acct"
    by (simp add: alice_registered_eq)
  have b: "users alice_registered ''bob'' = None"
    by (simp add: alice_registered_eq)
  have ok: "\<exists>acct. users alice_registered ''alice'' = Some acct \<and> password acct = ''secret1''"
    using a by simp
  from login_succeeds_iff_exact_match[of alice_registered "''alice''" "''secret1''"] ok
  have 1: "fst (fst (login alice_registered ''alice'' ''secret1''))"
    and 2: "snd (login alice_registered ''alice'' ''secret1'')
              = alice_registered\<lparr>logged_in := True, username := Some ''alice''\<rparr>"
    by blast+
  from login_succeeds_iff_exact_match[of alice_registered "''bob''" "''secret1''"] b
  have 3: "login alice_registered ''bob'' ''secret1'' = ((False, ''Username not found''), alice_registered)"
    by blast
  have c: "users alice_registered ''alice'' = Some ?acct \<and> password ?acct \<noteq> ''Secret1''"
    using a by simp
  from login_succeeds_iff_exact_match[of alice_registered "''alice''" "''Secret1''"] c
  have 4: "login alice_registered ''alice'' ''Secret1'' = ((False, ''Incorrect password''), alice_registered)"
    by blast
  have d: "users alice_registered ''alice'' = Some ?acct \<and> password ?acct \<noteq> ''secret''"
    using a by simp
  from login_succeeds_iff_exact_match[of alice_registered "''alice''" "''secret''"] d
  have 5: "login alice_registered ''alice'' ''secret'' = ((False, ''Incorrect password''), alice_registered)"
    by blast
  from 1 2 3 4 5 show ?thesis by simp
qed

section \<open>Logout and clearing the history\<close>

text \<open>
  Claim C6. \<^verbatim>\<open>logout\<close> makes the session anonymous and unbinds the current user, and
  changes neither the transcript store nor the credential store. A login that follows
  leaves the transcript store as it was before the logout; when it succeeds for user
  \<open>u\<close>, the session is authenticated as \<open>u\<close> and the transcript of \<open>u\<close> is the one
  accumulated before the logout.
\<close>

theorem logout_then_login_restores_transcript:
  "logged_in (logout s) = False
   \<and> username (logout s) = None
   \<and> chat_histories (logout s) = chat_histories s
   \<and> users (logout s) = users s
   \<and> chat_histories (snd (login (logout s) u p)) = chat_histories s
   \<and> (fst (fst (login (logout s) u p)) \<longrightarrow>
        logged_in (snd (login (logout s) u p))
      \<and> username (snd (login (logout s) u p)) = Some u
      \<and> history (snd (login (logout s) u p)) (Some u) = history s (Some u))"
  by (auto simp: logout_def login_def history_def split: option.splits)

text \<open>
  The theorem at alice's logout and login in the session of two users.
\<close>

theorem logout_then_login_restores_transcript_witness:
  "logged_in (logout two_users) = False
   \<and> username (logout two_users) = None
   \<and> logged_in (snd (login (logout two_users) ''alice'' ''secret1''))
   \<and> username (snd (login (logout two_users) ''alice'' ''secret1'')) = Some ''alice''
   \<and> history (snd (login (logout two_users) ''alice'' ''secret1'')) (Some ''alice'') =
       [\<lparr>role = User, content = ''hi'', timestamp = ''2024-05-01T10:00:00''\<rparr>,
        \<lparr>role = Assistant, content = ''yo'', timestamp = ''2024-05-01T10:00:02''\<rparr>]"
proof -
  have ok: "fst (fst (login (logout two_users) ''alice'' ''secret1''))"
    by (simp add: login_def logout_def two_users_fields)
  have h: "history two_users (Some ''alice'') =
       [\<lparr>role = User, content = ''hi'', timestamp = ''2024-05-01T10:00:00''\<rparr>,
        \<lparr>role = Assistant, content = ''yo'', timestamp = ''2024-05-01T10:00:02''\<rparr>]"
    by (simp add: history_def two_users_fields)
  from logout_then_login_restores_transcript[of two_users "''alice''" "''secret1''"] ok h
  show ?thesis by simp
qed

text \<open>
  Claim C7. When user \<open>a\<close> is logged in and presses the clear button, the run sets
  the transcript of \<open>a\<close> to the empty list, leaves the transcript of every other user
  \<open>b\<close> and the credential store unchanged, keeps \<open>a\<close> logged in, and ends with
  \<^verbatim>\<open>st.rerun()\<close>.
\<close>

theorem clear_history_only_current_user:
  assumes "logged_in s" "username s = Some a" "\<not> logout_btn w" "clear_btn w" "b \<noteq> a"
  shows "chat_histories (state_of (main w e s)) (Some a) = Some []
       \<and> chat_histories (state_of (main w e s)) (Some b) = chat_histories s (Some b)
       \<and> users (state_of (main w e s)) = users s
       \<and> logged_in (state_of (main w e s)) = logged_in s
       \<and> username (state_of (main w e s)) = username s
       \<and> outcome_of (main w e s) = Rerun"
  using assms
  by (simp add: main_def sidebar_def account_panel_def and_then_def state_of_def outcome_of_def)

text \<open>
  The theorem at alice's click in the session of two users: bob keeps his message.
\<close>

theorem clear_history_only_current_user_witness:
  "chat_histories (state_of (main (idle\<lparr>clear_btn := True\<rparr>) demo_env two_users)) (Some ''alice'') = Some []
   \<and> chat_histories (state_of (main (idle\<lparr>clear_btn := True\<rparr>) demo_env two_users)) (Some ''bob'') =
       Some [\<lparr>role = User, content = ''ping'', timestamp = ''2024-05-01T10:01:00''\<rparr>]
   \<and> users (state_of (main (idle\<lparr>clear_btn := True\<rparr>) demo_env two_users)) = users two_users"
proof -
  let ?w = "idle\<lparr>clear_btn := True\<rparr>"
  have h3: "\<not> logout_btn ?w" by (simp add: idle_def)
  have h4: "clear_btn ?w" by simp
  have h5: "''bob'' \<noteq> ''alice''" by simp
  from clear_history_only_current_user[OF two_users_fields(1) two_users_fields(2) h3 h4 h5]
  show ?thesis by (simp add: two_users_fields)
qed

section \<open>The sign-up form\<close>

text \<open>
  Claim C10, as the code has it. A click on the sign-up button of an anonymous session
  with a password that differs from its confirmation never calls \<^verbatim>\<open>signup\<close> and
  leaves the whole state unchanged. The error shown is \<open>Passwords don't match\<close> when
  username and password are both non-empty; when one of them is empty, the form's first
  test answers before the comparison, with \<open>Please fill in all fields\<close>.
\<close>

theorem signup_form_rejects_mismatch:
  assumes "\<not> logged_in s" "\<not> login_btn w" "signup_btn w"
    and "signup_pass w \<noteq> signup_pass_confirm w"
  shows "state_of (main w e s) = s
       \<and> filter is_signup_call (events_of (main w e s)) = []
       \<and> outcome_of (main w e s) = Finished
       \<and> (signup_user w \<noteq> [] \<and> signup_pass w \<noteq> [] \<longrightarrow>
            events_of (main w e s) =
              [Error ''Passwords don't match'', Info ''Please login or sign up to start chatting''])
       \<and> (signup_user w = [] \<or> signup_pass w = [] \<longrightarrow>
            events_of (main w e s) =
              [Error ''Please fill in all fields'', Info ''Please login or sign up to start chatting''])"
  using assms
  by (simp add: main_def sidebar_def login_tab_def signup_tab_def and_then_def
      state_of_def events_of_def outcome_of_def)

text \<open>
  The theorem at a mismatch with a username, and at a mismatch without one.
\<close>

theorem signup_form_rejects_mismatch_witness:
  "state_of (main (idle\<lparr>signup_btn := True, signup_user := ''bob'', signup_pass := ''hunter22'',
        signup_pass_confirm := ''hunter23''\<rparr>) demo_env alice_registered) = alice_registered
   \<and> events_of (main (idle\<lparr>signup_btn := True, signup_user := ''bob'', signup_pass := ''hunter22'',
        signup_pass_confirm := ''hunter23''\<rparr>) demo_env alice_registered) =
       [Error ''Passwords don't match'', Info ''Please login or sign up to start chatting'']
   \<and> events_of (main (idle\<lparr>signup_btn := True, signup_user := [], signup_pass := ''hunter22'',
        signup_pass_confirm := ''hunter23''\<rparr>) demo_env alice_registered) =
       [Error ''Please fill in all fields'', Info ''Please login or sign up to start chatting'']"
proof -
  let ?w = "idle\<lparr>signup_btn := True, signup_user := ''bob'', signup_pass := ''hunter22'',
        signup_pass_confirm := ''hunter23''\<rparr>"
  let ?v = "idle\<lparr>signup_btn := True, signup_user := [], signup_pass := ''hunter22'',
        signup_pass_confirm := ''hunter23''\<rparr>"
  have a: "\<not> logged_in alice_registered" by (simp add: alice_registered_eq)
  have w: "\<not> login_btn ?w" "signup_btn ?w" "signup_pass ?w \<noteq> signup_pass_confirm ?w"
    "signup_user ?w \<noteq> [] \<and> signup_pass ?w \<noteq> []"
    by (simp_all add: idle_def)
  have v: "\<not> login_btn ?v" "signup_btn ?v" "signup_pass ?v \<noteq> signup_pass_confirm ?v"
    "signup_user ?v = [] \<or> signup_pass ?v = []"
    by (simp_all add: idle_def)
  from signup_form_rejects_mismatch[OF a w(1) w(2) w(3), of demo_env] w(4)
  have 1: "state_of (main ?w demo_env alice_registered) = alice_registered"
    and 2: "events_of (main ?w demo_env alice_registered) =
       [Error ''Passwords don't match'', Info ''Please login or sign up to start chatting'']"
    by blast+
  from signup_form_rejects_mismatch[OF a v(1) v(2) v(3), of demo_env] v(4)
  have 3: "events_of (main ?v demo_env alice_registered) =
       [Error ''Please fill in all fields'', Info ''Please login or sign up to start chatting'']"
    by blast
  from 1 2 3 show ?thesis by simp
qed

text \<open>
  Claim C10 as stated fails: with an empty username and two different passwords, the
  error on the page is the one about empty fields, not the one about the mismatch.
\<close>

theorem signup_form_empty_username_counterexample:
  "signup_pass (idle\<lparr>signup_btn := True, signup_pass := ''hunter22'', signup_pass_confirm := ''hunter23''\<rparr>)
     \<noteq> signup_pass_confirm (idle\<lparr>signup_btn := True, signup_pass := ''hunter22'', signup_pass_confirm := ''hunter23''\<rparr>)
   \<and> events_of (main (idle\<lparr>signup_btn := True, signup_pass := ''hunter22'', signup_pass_confirm := ''hunter23''\<rparr>)
        demo_env initial_state) =
       [Error ''Please fill in all fields'', Info ''Please login or sign up to start chatting'']"
  by (simp add: main_def sidebar_def login_tab_def signup_tab_def and_then_def events_of_def
      idle_def initial_state_def)

section \<open>Conversation turns\<close>

text \<open>
  What a turn does when the model answers: the run draws the page, the user's bubble and
  the reply, calls the workflow once with the transcript that ends in the new input, and
  the workflow calls the model once, on the thread's checkpoint followed by that
  transcript. The transcript grows by the user's and the assistant's message, the
  checkpoint by the transcript and the reply.
\<close>

lemma turn_success:
  assumes "logged_in s" "\<not> logout_btn w" "\<not> clear_btn w" "chat_input w = Some p" "p \<noteq> []"
    and "graph_cache s \<noteq> None \<or> (\<exists>k. api_key e = Some k \<and> client_builds e k)"
    and "llm e (checkpointed s @ turn_messages e s p) = Inr reply"
  shows "events_of (main w e s) =
           page_head s @
           [Chat User p,
            Call_graph (username s) (turn_messages e s p),
            Call_llm (checkpointed s @ turn_messages e s p),
            Chat Assistant reply]
       \<and> outcome_of (main w e s) = Finished
       \<and> chat_histories (state_of (main w e s)) =
           (chat_histories s)(username s \<mapsto>
              history s (username s) @ [user_message e p, assistant_message e reply])
       \<and> users (state_of (main w e s)) = users s
       \<and> logged_in (state_of (main w e s)) = logged_in s
       \<and> username (state_of (main w e s)) = username s
       \<and> checkpointed (state_of (main w e s)) =
           checkpointed s @ turn_messages e s p @ [AIMessage reply]"
proof -
  let ?s2 = "append_message s (username s) (user_message e p)"
  have avail: "graph_cache ?s2 \<noteq> None \<or> (\<exists>k. api_key e = Some k \<and> client_builds e k)"
    using assms(6) by (simp add: append_message_fields)
  have ok: "llm e (checkpointed ?s2 @ prepare_messages (history ?s2 (username ?s2))) = Inr reply"
    using assms(7)
    by (simp add: turn_state_facts append_message_fields history_append_message turn_messages_def)
  show ?thesis
    by (simp add: main_turn[OF assms(1-5)] get_ai_response_success[OF avail ok]
        events_of_def outcome_of_def state_of_def append_message_fields turn_state_facts
        history_append_message graph_cache_update_facts turn_messages_def)
qed

text \<open>
  An empty text is no turn: the walrus test fails, nothing is appended and nothing is
  called.
\<close>

lemma empty_prompt_is_no_turn:
  assumes "logged_in s" "\<not> logout_btn w" "\<not> clear_btn w" "chat_input w = Some []"
  shows "events_of (main w e s) = page_head s
       \<and> outcome_of (main w e s) = Finished
       \<and> history (state_of (main w e s)) u = history s u
       \<and> graph_cache (state_of (main w e s)) = graph_cache s"
  using assms
  by (simp add: main_def sidebar_quiet and_then_Finished chat_interface_def Let_def page_head_def
      history_def events_of_def outcome_of_def state_of_def)

text \<open>
  Claim C1 at alice's second turn. Her transcript holds the first exchange, and the run
  hands the workflow the whole transcript with the new input, as the claim says. The
  workflow was compiled with a checkpointer and the thread id is her username, so its
  \<^verbatim>\<open>messages\<close> channel still holds the first exchange, and \<^verbatim>\<open>operator.add\<close>
  appends the input to it: the one call of the model receives the first exchange twice,
  not the transcript.
\<close>

theorem second_turn_resubmits_checkpointed_history:
  "history after_first_turn (Some ''alice'') =
     [\<lparr>role = User, content = ''hi'', timestamp = ''2024-05-01T10:00:00''\<rparr>,
      \<lparr>role = Assistant, content = ''yo'', timestamp = ''2024-05-01T10:00:02''\<rparr>]
   \<and> turn_messages demo_env after_first_turn ''again'' =
       [HumanMessage ''hi'', AIMessage ''yo'', HumanMessage ''again'']
   \<and> events_of (main (idle\<lparr>chat_input := Some ''again''\<rparr>) demo_env after_first_turn) =
       [Success ''Logged in as: **alice**'', Total_messages 2,
        Chat User ''hi'', Chat Assistant ''yo'', Chat User ''again'',
        Call_graph (Some ''alice'') [HumanMessage ''hi'', AIMessage ''yo'', HumanMessage ''again''],
        Call_llm [HumanMessage ''hi'', AIMessage ''yo'',
                  HumanMessage ''hi'', AIMessage ''yo'', HumanMessage ''again''],
        Chat Assistant ''yo'']"
  by (simp add: after_first_turn_eq main_def sidebar_def account_panel_def
      and_then_def chat_interface_def get_ai_response_def create_graph_def get_llm_def
      app_invoke_def chatbot_node_def checkpoint_of_def append_message_def history_def
      Let_def idle_def demo_env_def clock_def turn_messages_def user_message_def events_of_def
      logged_in_as_def)

text \<open>
  Claim C2. In a turn whose completion call raises, the run shows the error text after
  \<open>Error: \<close>, reaches the end of the script, and the transcript of the current user is
  the one before followed by the user's message alone: no assistant message is appended.
  All other transcripts, the credential store, \<open>logged_in\<close> and the current username
  are unchanged. A turn is a run of a logged-in session in which neither sidebar button
  is pressed and a non-empty text is submitted. The completion call takes place when the
  workflow is cached, or the key is present and the constructor of the client accepts
  it; otherwise the run is stopped before any call.
\<close>

theorem completion_failure_keeps_user_message:
  assumes "logged_in s" "\<not> logout_btn w" "\<not> clear_btn w" "chat_input w = Some p" "p \<noteq> []"
    and "graph_cache s \<noteq> None \<or> (\<exists>k. api_key e = Some k \<and> client_builds e k)"
    and "llm e (checkpointed s @ turn_messages e s p) = Inl err"
  shows "events_of (main w e s) =
           page_head s @
           [Chat User p,
            Call_graph (username s) (turn_messages e s p),
            Call_llm (checkpointed s @ turn_messages e s p),
            Error (''Error: '' @ err),
            Info ''Please check your API configuration'']
       \<and> outcome_of (main w e s) = Finished
       \<and> chat_histories (state_of (main w e s)) =
           (chat_histories s)(username s \<mapsto> history s (username s) @ [user_message e p])
       \<and> users (state_of (main w e s)) = users s
       \<and> logged_in (state_of (main w e s)) = logged_in s
       \<and> username (state_of (main w e s)) = username s"
proof -
  let ?s2 = "append_message s (username s) (user_message e p)"
  have avail: "graph_cache ?s2 \<noteq> None \<or> (\<exists>k. api_key e = Some k \<and> client_builds e k)"
    using assms(6) by (simp add: append_message_fields)
  have fails: "llm e (checkpointed ?s2 @ prepare_messages (history ?s2 (username ?s2))) = Inl err"
    using assms(7)
    by (simp add: turn_state_facts append_message_fields history_append_message turn_messages_def)
  show ?thesis
    by (simp add: main_turn[OF assms(1-5)] get_ai_response_failure[OF avail fails]
        events_of_def outcome_of_def state_of_def append_message_fields turn_state_facts
        history_append_message turn_messages_def)
qed

text \<open>
  The theorem at alice's first message while the model is down.
\<close>

theorem completion_failure_keeps_user_message_witness:
  "events_of (main (idle\<lparr>chat_input := Some ''hi''\<rparr>) down_env alice_session) =
     [Success ''Logged in as: **alice**'', Total_messages 0, Chat User ''hi'',
      Call_graph (Some ''alice'') [HumanMessage ''hi''], Call_llm [HumanMessage ''hi''],
      Error ''Error: Connection error.'', Info ''Please check your API configuration'']
   \<and> outcome_of (main (idle\<lparr>chat_input := Some ''hi''\<rparr>) down_env alice_session) = Finished
   \<and> chat_histories (state_of (main (idle\<lparr>chat_input := Some ''hi''\<rparr>) down_env alice_session)) (Some ''alice'') =
       Some [\<lparr>role = User, content = ''hi'', timestamp = ''2024-05-01T10:00:00''\<rparr>]"
proof -
  let ?w = "idle\<lparr>chat_input := Some ''hi''\<rparr>"
  have h1: "logged_in alice_session" by (simp add: alice_session_eq)
  have h2: "\<not> logout_btn ?w" by (simp add: idle_def)
  have h3: "\<not> clear_btn ?w" by (simp add: idle_def)
  have h4: "chat_input ?w = Some ''hi''" by simp
  have h5: "''hi'' \<noteq> []" by simp
  have h6: "graph_cache alice_session \<noteq> None
             \<or> (\<exists>k. api_key down_env = Some k \<and> client_builds down_env k)"
    by (simp add: down_env_def)
  have h7: "llm down_env (checkpointed alice_session @ turn_messages down_env alice_session ''hi'')
              = Inl ''Connection error.''"
    by (simp add: down_env_def)
  from completion_failure_keeps_user_message[OF h1 h2 h3 h4 h5 h6 h7]
  show ?thesis
    by (simp add: page_head_def logged_in_as_def history_def checkpointed_def turn_messages_def
        user_message_def alice_session_eq down_env_def clock_def)
qed

text \<open>
  A key that the constructor refuses is handled by the same \<^verbatim>\<open>except\<close> of
  \<^verbatim>\<open>get_llm\<close> as an absent one: the turn records the user's message, shows the error
  about the key and is stopped, and no call takes place. The second lemma is the run of
  alice's first message with the empty key.
\<close>

lemma refused_key_stops_turn:
  assumes "logged_in s" "\<not> logout_btn w" "\<not> clear_btn w" "chat_input w = Some p" "p \<noteq> []"
    and "api_key e = Some k" "\<not> client_builds e k" "graph_cache s = None"
  shows "events_of (main w e s) =
           page_head s @
           [Chat User p,
            Error ''API key not found in secrets. Please add OPENAI_API_KEY to your .streamlit/secrets.toml file'']
       \<and> outcome_of (main w e s) = Stopped
       \<and> chat_histories (state_of (main w e s)) =
           (chat_histories s)(username s \<mapsto> history s (username s) @ [user_message e p])
       \<and> graph_cache (state_of (main w e s)) = None"
proof -
  let ?s2 = "append_message s (username s) (user_message e p)"
  have nocache: "graph_cache ?s2 = None"
    using assms(8) by (simp add: append_message_fields)
  show ?thesis
    by (simp add: main_turn[OF assms(1-5)] get_ai_response_no_client[OF assms(6) assms(7) nocache]
        events_of_def outcome_of_def state_of_def append_message_fields assms(8))
qed

lemma refused_key_example:
  "events_of (main (idle\<lparr>chat_input := Some ''hi''\<rparr>) badkey_env alice_session) =
     [Success ''Logged in as: **alice**'', Total_messages 0, Chat User ''hi'',
      Error ''API key not found in secrets. Please add OPENAI_API_KEY to your .streamlit/secrets.toml file'']
   \<and> outcome_of (main (idle\<lparr>chat_input := Some ''hi''\<rparr>) badkey_env alice_session) = Stopped"
  by (simp add: alice_session_eq main_def sidebar_def account_panel_def
      and_then_def chat_interface_def get_ai_response_def create_graph_def get_llm_def
      append_message_def history_def Let_def idle_def badkey_env_def clock_def
      events_of_def outcome_of_def logged_in_as_def)

section \<open>Missing API key\<close>

text \<open>
  Claim C5, as the code has it. The secret is read by \<^verbatim>\<open>get_llm\<close>, which only
  \<^verbatim>\<open>create_graph\<close> calls, which only a conversation turn calls. Without the key and
  without a cached workflow, a run of an anonymous session in which no button is pressed
  reaches the end of the script and shows no error. The first conversation turn records
  the user's message, shows the error about the missing key and is stopped by
  \<^verbatim>\<open>st.stop()\<close>; nothing is cached, so every later turn does the same.
\<close>

theorem missing_api_key_stops_first_turn:
  assumes "api_key e = None" "graph_cache s = None"
  shows "(\<not> logged_in s \<and> \<not> login_btn w \<and> \<not> signup_btn w \<longrightarrow>
            main w e s = (s, [Info ''Please login or sign up to start chatting''], Finished))
       \<and> (logged_in s \<and> \<not> logout_btn w \<and> \<not> clear_btn w \<and> chat_input w = Some p \<and> p \<noteq> [] \<longrightarrow>
            outcome_of (main w e s) = Stopped
          \<and> events_of (main w e s) =
              page_head s @
              [Chat User p,
               Error ''API key not found in secrets. Please add OPENAI_API_KEY to your .streamlit/secrets.toml file'']
          \<and> chat_histories (state_of (main w e s)) =
              (chat_histories s)(username s \<mapsto> history s (username s) @ [user_message e p])
          \<and> graph_cache (state_of (main w e s)) = None)"
proof -
  have idle_run: "main w e s = (s, [Info ''Please login or sign up to start chatting''], Finished)"
    if "\<not> logged_in s" "\<not> login_btn w" "\<not> signup_btn w"
    using that by (simp add: main_def sidebar_def login_tab_def signup_tab_def and_then_Finished)
  have turn: "outcome_of (main w e s) = Stopped
          \<and> events_of (main w e s) =
              page_head s @
              [Chat User p,
               Error ''API key not found in secrets. Please add OPENAI_API_KEY to your .streamlit/secrets.toml file'']
          \<and> chat_histories (state_of (main w e s)) =
              (chat_histories s)(username s \<mapsto> history s (username s) @ [user_message e p])
          \<and> graph_cache (state_of (main w e s)) = None"
    if "logged_in s" "\<not> logout_btn w" "\<not> clear_btn w" "chat_input w = Some p" "p \<noteq> []"
  proof -
    let ?s2 = "append_message s (username s) (user_message e p)"
    have nocache: "graph_cache ?s2 = None"
      using assms(2) by (simp add: append_message_fields)
    show ?thesis
      by (simp add: main_turn[OF that] get_ai_response_no_key[OF assms(1) nocache]
          events_of_def outcome_of_def state_of_def append_message_fields assms(2))
  qed
  from idle_run turn show ?thesis by blast
qed

text \<open>
  The theorem at the first run of the application and at alice's first message.
\<close>

theorem missing_api_key_stops_first_turn_witness:
  "main idle nokey_env initial_state =
     (initial_state, [Info ''Please login or sign up to start chatting''], Finished)
   \<and> outcome_of (main (idle\<lparr>chat_input := Some ''hi''\<rparr>) nokey_env alice_session) = Stopped
   \<and> events_of (main (idle\<lparr>chat_input := Some ''hi''\<rparr>) nokey_env alice_session) =
       [Success ''Logged in as: **alice**'', Total_messages 0, Chat User ''hi'',
        Error ''API key not found in secrets. Please add OPENAI_API_KEY to your .streamlit/secrets.toml file'']
   \<and> chat_histories (state_of (main (idle\<lparr>chat_input := Some ''hi''\<rparr>) nokey_env alice_session)) (Some ''alice'') =
       Some [\<lparr>role = User, content = ''hi'', timestamp = ''2024-05-01T10:00:00''\<rparr>]"
proof -
  let ?w = "idle\<lparr>chat_input := Some ''hi''\<rparr>"
  have k: "api_key nokey_env = None" by (simp add: nokey_env_def)
  have c0: "graph_cache initial_state = None" by (simp add: initial_state_def)
  have c1: "graph_cache alice_session = None" by (simp add: alice_session_eq)
  have a: "\<not> logged_in initial_state \<and> \<not> login_btn idle \<and> \<not> signup_btn idle"
    by (simp add: initial_state_def idle_def)
  have b: "logged_in alice_session \<and> \<not> logout_btn ?w \<and> \<not> clear_btn ?w
             \<and> chat_input ?w = Some ''hi'' \<and> ''hi'' \<noteq> []"
    by (simp add: alice_session_eq idle_def)
  from missing_api_key_stops_first_turn[OF k c0, of idle] a
  have 1: "main idle nokey_env initial_state =
     (initial_state, [Info ''Please login or sign up to start chatting''], Finished)"
    by blast
  from missing_api_key_stops_first_turn[OF k c1, of ?w "''hi''"] b
  have 2: "outcome_of (main ?w nokey_env alice_session) = Stopped
          \<and> events_of (main ?w nokey_env alice_session) =
              page_head alice_session @
              [Chat User ''hi'',
               Error ''API key not found in secrets. Please add OPENAI_API_KEY to your .streamlit/secrets.toml file'']
          \<and> chat_histories (state_of (main ?w nokey_env alice_session)) =
              (chat_histories alice_session)(username alice_session \<mapsto>
                 history alice_session (username alice_session) @ [user_message nokey_env ''hi''])"
    by blast
  from 1 2 show ?thesis
    by (simp add: page_head_def logged_in_as_def history_def user_message_def alice_session_eq
        nokey_env_def clock_def)
qed

text \<open>
  Claim C5 as stated fails: without the key, the first run of the application reaches the
  end of the script with no error on the page, and sign-up and login work.
\<close>

theorem startup_without_api_key_counterexample:
  "api_key nokey_env = None
   \<and> outcome_of (main idle nokey_env initial_state) = Finished
   \<and> events_of (main idle nokey_env initial_state) = [Info ''Please login or sign up to start chatting'']
   \<and> fst (login (snd (signup initial_state ''alice'' ''secret1'' ''2024-05-01T09:59:00'')) ''alice'' ''secret1'')
       = (True, ''Logged in successfully'')"
  by (simp add: nokey_env_def main_def sidebar_def login_tab_def signup_tab_def and_then_def
      initial_state_def idle_def outcome_of_def events_of_def signup_def login_def)

end
